theory Spec2Isabelle
  imports Main "HOL-Library.AList"
begin

section \<open>Python values shared by the scheduler and the results tracker\<close>

text \<open>
  The program keeps all its data in JSON documents, that is in Python dicts and lists.
  A dict is an association list here: \<open>map_of\<close> is the lookup and \<open>AList.update\<close> is
  the assignment \<^verbatim>\<open>d[k] = v\<close> (it overwrites in place, or appends a new key at the end, as
  a Python dict keeps insertion order). A key of a JSON document that may be absent is an
  \<open>option\<close> field of a record. The exceptions the code can raise are values of \<open>error\<close>,
  and a function that can raise returns \<open>error + 'a\<close>.
\<close>

type_synonym ('k, 'v) dict = "('k \<times> 'v) list"

datatype error =
    KeyError string
  | ValueError
  | JSONDecodeError
  | IOError
  | OverflowError
  | UnicodeDecodeError
  | OtherError string

text \<open>
  \<open>IOError\<close> is Python 3's \<^verbatim>\<open>OSError\<close> (one class under two names), so it stands for
  \<^verbatim>\<open>PermissionError\<close> and the other subclasses too.
\<close>

text \<open>\<^verbatim>\<open>d.get(k, default)\<close> and \<^verbatim>\<open>d[k]\<close>.\<close>

definition dict_get :: "('k, 'v) dict \<Rightarrow> 'k \<Rightarrow> 'v \<Rightarrow> 'v" where
  "dict_get d k dflt = (case map_of d k of None \<Rightarrow> dflt | Some v \<Rightarrow> v)"

definition getitem :: "(string, 'v) dict \<Rightarrow> string \<Rightarrow> error + 'v" where
  "getitem d k = (case map_of d k of None \<Rightarrow> Inl (KeyError k) | Some v \<Rightarrow> Inr v)"


section \<open>Dates and times\<close>

text \<open>
  A naive \<^verbatim>\<open>datetime\<close> (no time zone, as everywhere in this program). The date is held
  as its proleptic Gregorian ordinal, the number \<^verbatim>\<open>date.toordinal()\<close> returns (day 1 is
  Monday, 1 January of year 1): \<^verbatim>\<open>weekday()\<close>, the difference of two dates and the
  addition of a \<^verbatim>\<open>timedelta\<close> are all computed from the ordinal by the library. The
  last date a \<^verbatim>\<open>datetime\<close> can hold is 31 December 9999, ordinal \<open>MAXORDINAL\<close>.
\<close>

definition MAXORDINAL :: int where
  "MAXORDINAL = 3652059"

record datetime =
  ordinal :: int
  hour :: int
  minute :: int
  second :: int
  microsecond :: int

text \<open>The ranges the \<^verbatim>\<open>datetime\<close> constructor enforces.\<close>

definition valid_datetime :: "datetime \<Rightarrow> bool" where
  "valid_datetime dt =
     (1 \<le> ordinal dt \<and> ordinal dt \<le> MAXORDINAL
      \<and> 0 \<le> hour dt \<and> hour dt \<le> 23
      \<and> 0 \<le> minute dt \<and> minute dt \<le> 59
      \<and> 0 \<le> second dt \<and> second dt \<le> 59
      \<and> 0 \<le> microsecond dt \<and> microsecond dt \<le> 999999)"

text \<open>\<^verbatim>\<open>weekday()\<close>: Monday is 0, Sunday is 6.\<close>

definition weekday :: "datetime \<Rightarrow> int" where
  "weekday dt = (ordinal dt + 6) mod 7"

text \<open>\<^verbatim>\<open>(a.date() - b.date()).days\<close>.\<close>

definition date_diff_days :: "datetime \<Rightarrow> datetime \<Rightarrow> int" where
  "date_diff_days a b = ordinal a - ordinal b"

text \<open>
  \<^verbatim>\<open>timedelta(days=d, hours=h)\<close>, normalised as the library does to days, seconds below
  86400 and microseconds below a million; more than 999999999 days either way raise
  \<^verbatim>\<open>OverflowError\<close>.
\<close>

record timedelta =
  td_days :: int
  td_seconds :: int
  td_microseconds :: int

definition timedelta_of :: "int \<Rightarrow> int \<Rightarrow> error + timedelta" where
  "timedelta_of d h =
     (let days = d + (h * 3600) div 86400
      in if 999999999 < \<bar>days\<bar> then Inl OverflowError
         else Inr \<lparr>td_days = days,
                   td_seconds = (h * 3600) mod 86400,
                   td_microseconds = 0\<rparr>)"

text \<open>
  \<^verbatim>\<open>dt + td\<close>: the library turns the datetime into a timedelta since day 0, adds, and
  splits the normalised sum again; a sum whose day is not between 1 and \<open>MAXORDINAL\<close>
  raises \<^verbatim>\<open>OverflowError\<close>.
\<close>

definition dt_add :: "datetime \<Rightarrow> timedelta \<Rightarrow> error + datetime" where
  "dt_add dt td =
     (let us = microsecond dt + td_microseconds td;
          secs = hour dt * 3600 + minute dt * 60 + second dt + td_seconds td
                 + us div 1000000;
          days = ordinal dt + td_days td + secs div 86400;
          s = secs mod 86400;
          r = s mod 3600
      in if 0 < days \<and> days \<le> MAXORDINAL
         then Inr \<lparr>ordinal = days, hour = s div 3600, minute = r div 60,
                   second = r mod 60, microsecond = us mod 1000000\<rparr>
         else Inl OverflowError)"

text \<open>\<^verbatim>\<open>dt + timedelta(days=d, hours=h)\<close>: the timedelta is built first.\<close>

definition dt_plus :: "datetime \<Rightarrow> int \<Rightarrow> int \<Rightarrow> error + datetime" where
  "dt_plus dt d h =
     (case timedelta_of d h of
        Inl e \<Rightarrow> Inl e
      | Inr td \<Rightarrow> dt_add dt td)"

text \<open>
  \<^verbatim>\<open>dt.replace(hour=h, minute=m, second=s, microsecond=us)\<close>: the date is kept, and a
  field out of range raises \<^verbatim>\<open>ValueError\<close>.
\<close>

definition dt_replace :: "datetime \<Rightarrow> int \<Rightarrow> int \<Rightarrow> int \<Rightarrow> int \<Rightarrow> error + datetime" where
  "dt_replace dt h m s us =
     (if 0 \<le> h \<and> h \<le> 23 \<and> 0 \<le> m \<and> m \<le> 59 \<and> 0 \<le> s \<and> s \<le> 59
         \<and> 0 \<le> us \<and> us \<le> 999999
      then Inr (dt\<lparr>hour := h, minute := m, second := s, microsecond := us\<rparr>)
      else Inl ValueError)"

text \<open>\<^verbatim>\<open>a <= b\<close> on naive datetimes: lexicographic on date and time of day.\<close>

definition dt_le :: "datetime \<Rightarrow> datetime \<Rightarrow> bool" where
  "dt_le a b =
     (ordinal a < ordinal b \<or> (ordinal a = ordinal b \<and>
       (hour a < hour b \<or> (hour a = hour b \<and>
         (minute a < minute b \<or> (minute a = minute b \<and>
           (second a < second b \<or> (second a = second b \<and>
             microsecond a \<le> microsecond b))))))))"

section \<open>scheduler.py: schedule records\<close>

datatype ScheduleType = SAME_DAY | NEXT_DAY | WEEKLY | ON_DEMAND

text \<open>The \<^verbatim>\<open>.value\<close> of a member, and the lookup \<^verbatim>\<open>ScheduleType(s)\<close> by value.\<close>

fun ScheduleType_value :: "ScheduleType \<Rightarrow> string" where
  "ScheduleType_value SAME_DAY = ''same_day''"
| "ScheduleType_value NEXT_DAY = ''next_day''"
| "ScheduleType_value WEEKLY = ''weekly''"
| "ScheduleType_value ON_DEMAND = ''on_demand''"

definition ScheduleType_of :: "string \<Rightarrow> error + ScheduleType" where
  "ScheduleType_of s =
     (if s = ''same_day'' then Inr SAME_DAY
      else if s = ''next_day'' then Inr NEXT_DAY
      else if s = ''weekly'' then Inr WEEKLY
      else if s = ''on_demand'' then Inr ON_DEMAND
      else Inl ValueError)"

record QuizSchedule =
  session_id :: string
  schedule_type :: ScheduleType
  scheduled_for :: datetime
  summary_path :: string
  created_at :: datetime

text \<open>
  The constructor with \<^verbatim>\<open>__post_init__\<close>: a missing \<^verbatim>\<open>created_at\<close> is the clock's
  reading \<open>clock\<close> at construction.
\<close>

definition QuizSchedule_init ::
  "datetime \<Rightarrow> string \<Rightarrow> ScheduleType \<Rightarrow> datetime \<Rightarrow> string \<Rightarrow> datetime option \<Rightarrow> QuizSchedule"
where
  "QuizSchedule_init clock sid ty sched path created =
     \<lparr>session_id = sid, schedule_type = ty, scheduled_for = sched, summary_path = path,
      created_at = (case created of None \<Rightarrow> clock | Some c \<Rightarrow> c)\<rparr>"

text \<open>
  A serialized quiz is a dict from strings to strings. The library's
  \<^verbatim>\<open>datetime.isoformat\<close> and \<^verbatim>\<open>datetime.fromisoformat\<close> are parameters of every
  function that calls them: \<open>isoformat\<close> and \<open>fromisoformat\<close>, the latter raising
  \<^verbatim>\<open>ValueError\<close> on a string it cannot parse.
\<close>

type_synonym quiz_dict = "(string, string) dict"

definition to_dict :: "(datetime \<Rightarrow> string) \<Rightarrow> QuizSchedule \<Rightarrow> quiz_dict" where
  "to_dict isoformat q =
     [(''session_id'', session_id q),
      (''type'', ScheduleType_value (schedule_type q)),
      (''scheduled_for'', isoformat (scheduled_for q)),
      (''summary_path'', summary_path q),
      (''created_at'', isoformat (created_at q))]"

text \<open>
  \<^verbatim>\<open>QuizSchedule.from_dict\<close>: the keyword arguments are evaluated in the order written,
  so the first failing one decides the exception. \<open>clock\<close> is the reading of
  \<^verbatim>\<open>datetime.now()\<close> in the default of \<^verbatim>\<open>created_at\<close>.
\<close>

definition from_dict ::
  "(string \<Rightarrow> error + datetime) \<Rightarrow> (datetime \<Rightarrow> string) \<Rightarrow> datetime \<Rightarrow> quiz_dict
     \<Rightarrow> error + QuizSchedule"
where
  "from_dict fromisoformat isoformat clock data =
     (case getitem data ''session_id'' of
        Inl e \<Rightarrow> Inl e
      | Inr sid \<Rightarrow>
     (case getitem data ''type'' of
        Inl e \<Rightarrow> Inl e
      | Inr ty_s \<Rightarrow>
     (case ScheduleType_of ty_s of
        Inl e \<Rightarrow> Inl e
      | Inr ty \<Rightarrow>
     (case getitem data ''scheduled_for'' of
        Inl e \<Rightarrow> Inl e
      | Inr sched_s \<Rightarrow>
     (case fromisoformat sched_s of
        Inl e \<Rightarrow> Inl e
      | Inr sched \<Rightarrow>
     (case getitem data ''summary_path'' of
        Inl e \<Rightarrow> Inl e
      | Inr path \<Rightarrow>
     (case fromisoformat (dict_get data ''created_at'' (isoformat clock)) of
        Inl e \<Rightarrow> Inl e
      | Inr created \<Rightarrow>
          Inr (QuizSchedule_init clock sid ty sched path (Some created)))))))))"

section \<open>The project state\<close>

text \<open>
  A bucket of \<^verbatim>\<open>topic_scores\<close> is the dict \<^verbatim>\<open>{"correct": int, "total": int}\<close>; a completion
  record is \<^verbatim>\<open>{"session_id", "completed_at", "result"}\<close>, whose result the scheduler
  stores without reading it (type \<open>'r\<close>). The state document has the keys below, each of
  which may be absent; the elements of \<^verbatim>\<open>sessions\<close> are never read (type \<open>'s\<close>).
\<close>

record bucket =
  correct_count :: int
  total_count :: int

type_synonym scores = "(string, bucket) dict"

record 'r completion =
  c_session_id :: string
  c_completed_at :: string
  c_result :: 'r

record ('s, 'r) state =
  project :: "string option"
  sessions :: "'s list option"
  pending_quizzes :: "quiz_dict list option"
  completed_quizzes :: "'r completion list option"
  topic_scores :: "scores option"

text \<open>
  Paths are lists of components, \<^verbatim>\<open>p / "a"\<close> appends one and \<^verbatim>\<open>p.name\<close> is the last one.
  The file system answers for a path that there is no file (\<^verbatim>\<open>exists()\<close> is false), that
  \<^verbatim>\<open>exists()\<close> itself raises \<^verbatim>\<open>OSError\<close> (a directory that may not be searched), that
  opening the file raises \<^verbatim>\<open>IOError\<close>, or with the file's bytes. \<^verbatim>\<open>json.load\<close>, which
  reads, decodes and parses them, is the parameter \<open>json_load\<close>. The call of \<^verbatim>\<open>exists()\<close>
  stands before the \<^verbatim>\<open>try\<close>, so what it raises is not caught; of what the body of the
  \<^verbatim>\<open>try\<close> raises, \<^verbatim>\<open>JSONDecodeError\<close> and \<^verbatim>\<open>IOError\<close> are caught and nothing else.
\<close>

type_synonym path = "string list"





section \<open>scheduler.py: configuration and eligibility\<close>


text \<open>\<^verbatim>\<open>DEFAULT_CONFIG\<close>, with the keys in the order of the source.\<close>

definition DEFAULT_CONFIG :: "(string, int) dict" where
  "DEFAULT_CONFIG =
     [(''same_day_delay_hours'', 4),
      (''next_day_hour'', 9),
      (''weekly_day'', 4),
      (''min_session_minutes'', 15),
      (''min_activities'', 5)]"

text \<open>
  \<^verbatim>\<open>config = config or DEFAULT_CONFIG\<close>: the argument defaults to \<^verbatim>\<open>None\<close>, and both
  \<^verbatim>\<open>None\<close> and the empty dict are falsy.
\<close>

definition config_or_default :: "(string, int) dict option \<Rightarrow> (string, int) dict" where
  "config_or_default config =
     (case config of
        None \<Rightarrow> DEFAULT_CONFIG
      | Some c \<Rightarrow> if c = [] then DEFAULT_CONFIG else c)"

text \<open>
  The session summary, as far as \<^verbatim>\<open>should_schedule_quiz\<close> reads it: the keys
  \<^verbatim>\<open>duration_minutes\<close> (an int, see \<^verbatim>\<open>generate_summary\<close>) and \<^verbatim>\<open>stats\<close> (a dict of
  counters). Either key may be missing.
\<close>

record summary =
  duration_minutes :: "int option"
  stats :: "(string, int) dict option"

definition should_schedule_quiz :: "summary \<Rightarrow> (string, int) dict option \<Rightarrow> bool" where
  "should_schedule_quiz summ config0 =
     (let config = config_or_default config0;
          duration = (case duration_minutes summ of None \<Rightarrow> 0 | Some d \<Rightarrow> d);
          stats_d = (case stats summ of None \<Rightarrow> [] | Some s \<Rightarrow> s);
          total_activities = dict_get stats_d ''total_activities'' 0
      in if duration < dict_get config ''min_session_minutes'' 15 then False
         else if total_activities < dict_get config ''min_activities'' 5 then False
         else True)"

text \<open>
  The two quantities the eligibility rule speaks of: the duration of the session and the
  number of its recorded activities, each read from the summary where it is recorded.
\<close>

definition session_duration :: "summary \<Rightarrow> int" where
  "session_duration summ = (case duration_minutes summ of None \<Rightarrow> 0 | Some d \<Rightarrow> d)"

definition session_activities :: "summary \<Rightarrow> int" where
  "session_activities summ =
     (case stats summ of
        None \<Rightarrow> 0
      | Some s \<Rightarrow> (case map_of s ''total_activities'' of None \<Rightarrow> 0 | Some a \<Rightarrow> a))"


section \<open>scheduler.py: scheduling and the quiz lifecycle\<close>

text \<open>
  \<^verbatim>\<open>schedule_quiz\<close> reads the clock once (\<open>now\<close>); the constructor of the record reads
  it again for \<^verbatim>\<open>created_at\<close> (\<open>clock\<close>). The additions raise \<^verbatim>\<open>OverflowError\<close> past the
  last date, \<^verbatim>\<open>replace\<close> raises \<^verbatim>\<open>ValueError\<close> on an hour out of range.
\<close>

definition schedule_quiz ::
  "datetime \<Rightarrow> datetime \<Rightarrow> string \<Rightarrow> ScheduleType \<Rightarrow> string \<Rightarrow> (string, int) dict option
     \<Rightarrow> error + QuizSchedule"
where
  "schedule_quiz now clock sid ty path config0 =
     (let config = config_or_default config0 in
      case
        (case ty of
           SAME_DAY \<Rightarrow>
             (let delay_hours = dict_get config ''same_day_delay_hours'' 4
              in dt_plus now 0 delay_hours)
         | NEXT_DAY \<Rightarrow>
             (case dt_plus now 1 0 of
                Inl e \<Rightarrow> Inl e
              | Inr tomorrow \<Rightarrow>
                  (let next_day_hour = dict_get config ''next_day_hour'' 9
                   in dt_replace tomorrow next_day_hour 0 0 0))
         | WEEKLY \<Rightarrow>
             (let weekly_day = dict_get config ''weekly_day'' 4;
                  days_ahead0 = weekly_day - weekday now;
                  days_ahead = (if days_ahead0 \<le> 0 then days_ahead0 + 7 else days_ahead0)
              in case dt_plus now days_ahead 0 of
                   Inl e \<Rightarrow> Inl e
                 | Inr target_date \<Rightarrow> dt_replace target_date 9 0 0 0)
         | ON_DEMAND \<Rightarrow> Inr now)
      of
        Inl e \<Rightarrow> Inl e
      | Inr sched \<Rightarrow> Inr (QuizSchedule_init clock sid ty sched path None))"

text \<open>
  \<^verbatim>\<open>get_due_quizzes\<close>: the loop over \<^verbatim>\<open>state.get("pending_quizzes", [])\<close> with the list
  \<open>due\<close> it appends to. A quiz without \<^verbatim>\<open>scheduled_for\<close>, or with one that does not parse,
  raises.
\<close>

fun get_due_loop ::
  "(string \<Rightarrow> error + datetime) \<Rightarrow> datetime \<Rightarrow> quiz_dict list \<Rightarrow> quiz_dict list
     \<Rightarrow> error + quiz_dict list"
where
  "get_due_loop fromisoformat now [] due = Inr due"
| "get_due_loop fromisoformat now (quiz # rest) due =
     (case getitem quiz ''scheduled_for'' of
        Inl e \<Rightarrow> Inl e
      | Inr s \<Rightarrow>
          (case fromisoformat s of
             Inl e \<Rightarrow> Inl e
           | Inr sched \<Rightarrow>
               get_due_loop fromisoformat now rest
                 (if dt_le sched now then due @ [quiz] else due)))"

definition get_due_quizzes ::
  "(string \<Rightarrow> error + datetime) \<Rightarrow> datetime \<Rightarrow> ('s, 'r) state \<Rightarrow> error + quiz_dict list"
where
  "get_due_quizzes fromisoformat now st =
     get_due_loop fromisoformat now
       (case pending_quizzes st of None \<Rightarrow> [] | Some ps \<Rightarrow> ps) []"

definition add_pending_quiz ::
  "(datetime \<Rightarrow> string) \<Rightarrow> ('s, 'r) state \<Rightarrow> QuizSchedule \<Rightarrow> error + ('s, 'r) state"
where
  "add_pending_quiz isoformat st schedule =
     (case pending_quizzes st of
        None \<Rightarrow> Inl (KeyError ''pending_quizzes'')
      | Some ps \<Rightarrow> Inr (st\<lparr>pending_quizzes := Some (ps @ [to_dict isoformat schedule])\<rparr>))"

text \<open>
  The comprehension \<^verbatim>\<open>[q for q in pending if q["session_id"] != session_id]\<close> of
  \<^verbatim>\<open>mark_quiz_completed\<close>; an entry without \<^verbatim>\<open>session_id\<close> raises.
\<close>

fun remove_session :: "string \<Rightarrow> quiz_dict list \<Rightarrow> error + quiz_dict list" where
  "remove_session sid [] = Inr []"
| "remove_session sid (q # rest) =
     (case getitem q ''session_id'' of
        Inl e \<Rightarrow> Inl e
      | Inr s \<Rightarrow>
          (case remove_session sid rest of
             Inl e \<Rightarrow> Inl e
           | Inr kept \<Rightarrow> Inr (if s \<noteq> sid then q # kept else kept)))"

definition mark_quiz_completed ::
  "(datetime \<Rightarrow> string) \<Rightarrow> datetime \<Rightarrow> ('s, 'r) state \<Rightarrow> string \<Rightarrow> 'r \<Rightarrow> error + ('s, 'r) state"
where
  "mark_quiz_completed isoformat now st sid res =
     (case pending_quizzes st of
        None \<Rightarrow> Inl (KeyError ''pending_quizzes'')
      | Some ps \<Rightarrow>
          (case remove_session sid ps of
             Inl e \<Rightarrow> Inl e
           | Inr kept \<Rightarrow>
               (case completed_quizzes st of
                  None \<Rightarrow> Inl (KeyError ''completed_quizzes'')
                | Some cs \<Rightarrow>
                    Inr (st\<lparr>pending_quizzes := Some kept,
                            completed_quizzes := Some (cs @
                              [\<lparr>c_session_id = sid, c_completed_at = isoformat now,
                                c_result = res\<rparr>])\<rparr>))))"

section \<open>results\_tracker.py: topic scores\<close>

text \<open>
  A question of a result document, as far as the tracker reads it: the keys \<^verbatim>\<open>type\<close>,
  \<^verbatim>\<open>correct\<close> and \<^verbatim>\<open>tags\<close>, each of which may be missing; and the result document with
  its key \<^verbatim>\<open>questions\<close>.
\<close>

record question =
  q_type :: "string option"
  q_correct :: "bool option"
  q_tags :: "string list option"

record quiz_result =
  questions :: "question list option"

text \<open>The body of the loop over the questions in \<^verbatim>\<open>calculate_topic_scores\<close>.\<close>

definition calc_question :: "question \<Rightarrow> scores \<Rightarrow> scores" where
  "calc_question quest scores0 =
     (let qtype = (case q_type quest of None \<Rightarrow> ''unknown'' | Some t \<Rightarrow> t);
          correct = (case q_correct quest of None \<Rightarrow> False | Some c \<Rightarrow> c);
          tags = (case q_tags quest of None \<Rightarrow> [] | Some ts \<Rightarrow> ts);
          scores1 = (if map_of scores0 qtype = None
                     then AList.update qtype \<lparr>correct_count = 0, total_count = 0\<rparr> scores0
                     else scores0);
          scores2 = AList.map_entry qtype (\<lambda>b. b\<lparr>total_count := total_count b + 1\<rparr>) scores1;
          scores3 = (if correct
                     then AList.map_entry qtype
                            (\<lambda>b. b\<lparr>correct_count := correct_count b + 1\<rparr>) scores2
                     else scores2)
      in fold (\<lambda>tag sc.
           let sc1 = (if map_of sc tag = None
                      then AList.update tag \<lparr>correct_count = 0, total_count = 0\<rparr> sc
                      else sc);
               sc2 = AList.map_entry tag (\<lambda>b. b\<lparr>total_count := total_count b + 1\<rparr>) sc1
           in if correct
              then AList.map_entry tag (\<lambda>b. b\<lparr>correct_count := correct_count b + 1\<rparr>) sc2
              else sc2)
         tags scores3)"

definition calculate_topic_scores :: "quiz_result list \<Rightarrow> scores" where
  "calculate_topic_scores results =
     fold (\<lambda>res sc.
             fold calc_question (case questions res of None \<Rightarrow> [] | Some qs \<Rightarrow> qs) sc)
       results []"

text \<open>
  The body of the loop over the questions in \<^verbatim>\<open>merge_result_into_state\<close>, on
  \<^verbatim>\<open>state["topic_scores"]\<close>.
\<close>

definition merge_question :: "question \<Rightarrow> scores \<Rightarrow> scores" where
  "merge_question quest ts0 =
     (let qtype = (case q_type quest of None \<Rightarrow> ''unknown'' | Some t \<Rightarrow> t);
          correct = (case q_correct quest of None \<Rightarrow> False | Some c \<Rightarrow> c);
          tags = (case q_tags quest of None \<Rightarrow> [] | Some ts \<Rightarrow> ts);
          ts1 = (if map_of ts0 qtype = None
                 then AList.update qtype \<lparr>correct_count = 0, total_count = 0\<rparr> ts0
                 else ts0);
          ts2 = AList.map_entry qtype (\<lambda>b. b\<lparr>total_count := total_count b + 1\<rparr>) ts1;
          ts3 = (if correct
                 then AList.map_entry qtype
                        (\<lambda>b. b\<lparr>correct_count := correct_count b + 1\<rparr>) ts2
                 else ts2)
      in fold (\<lambda>tag ts.
           let ts' = (if map_of ts tag = None
                      then AList.update tag \<lparr>correct_count = 0, total_count = 0\<rparr> ts
                      else ts);
               ts'' = AList.map_entry tag (\<lambda>b. b\<lparr>total_count := total_count b + 1\<rparr>) ts'
           in if correct
              then AList.map_entry tag (\<lambda>b. b\<lparr>correct_count := correct_count b + 1\<rparr>) ts''
              else ts'')
         tags ts3)"

definition merge_result_into_state :: "('s, 'r) state \<Rightarrow> quiz_result \<Rightarrow> ('s, 'r) state" where
  "merge_result_into_state st res =
     (let ts0 = (case topic_scores st of None \<Rightarrow> [] | Some ts \<Rightarrow> ts)
      in st\<lparr>topic_scores :=
            Some (fold merge_question
                    (case questions res of None \<Rightarrow> [] | Some qs \<Rightarrow> qs) ts0)\<rparr>)"

section \<open>Quantities the scheduling properties speak of\<close>

text \<open>
  The weekday a configuration asks for: the entry \<^verbatim>\<open>weekly_day\<close> of the configuration in
  force, or 4 (Friday) when it has none.
\<close>

definition weekly_day_of :: "(string, int) dict option \<Rightarrow> int" where
  "weekly_day_of config0 = dict_get (config_or_default config0) ''weekly_day'' 4"

text \<open>
  The number of days from the date of \<open>dt\<close> to the next date after it that falls on
  weekday \<open>w\<close>: between 1 and 7, and 7 when \<open>dt\<close> is itself on weekday \<open>w\<close>.
\<close>

definition days_until :: "int \<Rightarrow> datetime \<Rightarrow> int" where
  "days_until w dt = (w - weekday dt - 1) mod 7 + 1"

text \<open>The last day of the calendar, a Friday, at 08:00.\<close>

definition dec31_9999 :: datetime where
  "dec31_9999 = \<lparr>ordinal = 3652059, hour = 8, minute = 0, second = 0, microsecond = 0\<rparr>"

text \<open>The four strings that are values of a \<^verbatim>\<open>ScheduleType\<close> member.\<close>

definition known_types :: "string set" where
  "known_types = {''same_day'', ''next_day'', ''weekly'', ''on_demand''}"

text \<open>
  The pending list of a state (empty when the key is absent), the time a pending entry is
  scheduled for (none when the entry has no \<^verbatim>\<open>scheduled_for\<close> or it does not parse), and
  what it means for an entry to be due at \<open>now\<close>: its time is at or before \<open>now\<close>.
\<close>

definition pending_of :: "('s, 'r) state \<Rightarrow> quiz_dict list" where
  "pending_of st = (case pending_quizzes st of None \<Rightarrow> [] | Some ps \<Rightarrow> ps)"

definition scheduled_time :: "(string \<Rightarrow> error + datetime) \<Rightarrow> quiz_dict \<Rightarrow> datetime option" where
  "scheduled_time fromisoformat quiz =
     (case map_of quiz ''scheduled_for'' of
        None \<Rightarrow> None
      | Some s \<Rightarrow> (case fromisoformat s of Inl e \<Rightarrow> None | Inr sched \<Rightarrow> Some sched))"

definition has_timestamp :: "(string \<Rightarrow> error + datetime) \<Rightarrow> quiz_dict \<Rightarrow> bool" where
  "has_timestamp fromisoformat quiz = (scheduled_time fromisoformat quiz \<noteq> None)"

definition is_due :: "(string \<Rightarrow> error + datetime) \<Rightarrow> datetime \<Rightarrow> quiz_dict \<Rightarrow> bool" where
  "is_due fromisoformat now quiz =
     (case scheduled_time fromisoformat quiz of
        None \<Rightarrow> False
      | Some sched \<Rightarrow> dt_le sched now)"

text \<open>Whether a pending entry belongs to session \<open>sid\<close>, and whether it names a session.\<close>

definition of_session :: "string \<Rightarrow> quiz_dict \<Rightarrow> bool" where
  "of_session sid quiz = (map_of quiz ''session_id'' = Some sid)"

definition has_session :: "quiz_dict \<Rightarrow> bool" where
  "has_session quiz = (map_of quiz ''session_id'' \<noteq> None)"

text \<open>
  Sample data for the concrete instances below: three timestamps of January 2026 (day
  739646 is 30 January) with their ISO strings, and the two library functions on them.
\<close>

definition jan29_1830 :: datetime where
  "jan29_1830 = \<lparr>ordinal = 739645, hour = 18, minute = 30, second = 0, microsecond = 0\<rparr>"

definition jan30_1400 :: datetime where
  "jan30_1400 = \<lparr>ordinal = 739646, hour = 14, minute = 0, second = 0, microsecond = 0\<rparr>"

definition jan31_0900 :: datetime where
  "jan31_0900 = \<lparr>ordinal = 739647, hour = 9, minute = 0, second = 0, microsecond = 0\<rparr>"

definition sample_fromisoformat :: "string \<Rightarrow> error + datetime" where
  "sample_fromisoformat s =
     (if s = ''2026-01-29T18:30:00'' then Inr jan29_1830
      else if s = ''2026-01-30T14:00:00'' then Inr jan30_1400
      else if s = ''2026-01-31T09:00:00'' then Inr jan31_0900
      else Inl ValueError)"

definition sample_isoformat :: "datetime \<Rightarrow> string" where
  "sample_isoformat t =
     (if t = jan29_1830 then ''2026-01-29T18:30:00''
      else if t = jan30_1400 then ''2026-01-30T14:00:00''
      else if t = jan31_0900 then ''2026-01-31T09:00:00''
      else ''0001-01-01T00:00:00'')"

definition sample_quiz :: "string \<Rightarrow> string \<Rightarrow> string \<Rightarrow> quiz_dict" where
  "sample_quiz sid ty sched =
     [(''session_id'', sid), (''type'', ty), (''scheduled_for'', sched),
      (''summary_path'', ''/path/summary.json'')]"

section \<open>Quantities the score properties speak of\<close>

text \<open>
  What the tracker reads from a question: its type (\<^verbatim>\<open>unknown\<close> when the key is missing),
  whether it was answered correctly (no, when missing), its tags (none, when missing);
  and the keys it counts for: its type, then each of its tags.
\<close>

definition question_type :: "question \<Rightarrow> string" where
  "question_type quest = (case q_type quest of None \<Rightarrow> ''unknown'' | Some t \<Rightarrow> t)"

definition question_correct :: "question \<Rightarrow> bool" where
  "question_correct quest = (case q_correct quest of None \<Rightarrow> False | Some c \<Rightarrow> c)"

definition question_tags :: "question \<Rightarrow> string list" where
  "question_tags quest = (case q_tags quest of None \<Rightarrow> [] | Some ts \<Rightarrow> ts)"

definition question_keys :: "question \<Rightarrow> string list" where
  "question_keys quest = question_type quest # question_tags quest"

text \<open>
  How often the key \<open>k\<close> is counted by a list of questions: once for every question of
  type \<open>k\<close> and once for every occurrence of \<open>k\<close> in a tag list; and how many of these
  counts come from correctly answered questions.
\<close>

definition key_total :: "string \<Rightarrow> question list \<Rightarrow> int" where
  "key_total k qs = (\<Sum>quest\<leftarrow>qs. int (count_list (question_keys quest) k))"

definition key_correct :: "string \<Rightarrow> question list \<Rightarrow> int" where
  "key_correct k qs =
     (\<Sum>quest\<leftarrow>qs. if question_correct quest
                     then int (count_list (question_keys quest) k) else 0)"

text \<open>
  The bucket of a key in a score table, read as \<^verbatim>\<open>{"correct": 0, "total": 0}\<close> when the
  key is absent; the score table of a state (empty when the state has none); the
  questions of a result document (none when the key is missing).
\<close>

definition bucket_of :: "scores \<Rightarrow> string \<Rightarrow> bucket" where
  "bucket_of sc k =
     (case map_of sc k of None \<Rightarrow> \<lparr>correct_count = 0, total_count = 0\<rparr> | Some b \<Rightarrow> b)"

definition scores_of :: "('s, 'r) state \<Rightarrow> scores" where
  "scores_of st = (case topic_scores st of None \<Rightarrow> [] | Some ts \<Rightarrow> ts)"

definition questions_of :: "quiz_result \<Rightarrow> question list" where
  "questions_of res = (case questions res of None \<Rightarrow> [] | Some qs \<Rightarrow> qs)"

definition bucket_ok :: "bucket \<Rightarrow> bool" where
  "bucket_ok b = (0 \<le> correct_count b \<and> correct_count b \<le> total_count b)"

text \<open>
  The four statements both functions run for one key, the type or a tag: create the
  bucket if it is missing, add one to its total, add one to its correct count if the
  question was answered correctly. Used in the proofs only.
\<close>

definition track :: "bool \<Rightarrow> string \<Rightarrow> scores \<Rightarrow> scores" where
  "track c key sc =
     (let sc1 = (if map_of sc key = None
                 then AList.update key \<lparr>correct_count = 0, total_count = 0\<rparr> sc
                 else sc);
          sc2 = AList.map_entry key (\<lambda>b. b\<lparr>total_count := total_count b + 1\<rparr>) sc1
      in if c
         then AList.map_entry key (\<lambda>b. b\<lparr>correct_count := correct_count b + 1\<rparr>) sc2
         else sc2)"

text \<open>Sample data for the concrete instances of the score properties.\<close>

definition empty_state :: "('s, 'r) state" where
  "empty_state =
     \<lparr>project = None, sessions = None, pending_quizzes = None, completed_quizzes = None,
      topic_scores = None\<rparr>"

definition one_question :: "string \<Rightarrow> bool \<Rightarrow> string list \<Rightarrow> quiz_result" where
  "one_question ty c ts =
     \<lparr>questions = Some [\<lparr>q_type = Some ty, q_correct = Some c, q_tags = Some ts\<rparr>]\<rparr>"

section \<open>Eligibility\<close>

lemma default_min_session_minutes:
  "dict_get (config_or_default None) ''min_session_minutes'' 15 = 15"
  by (simp add: config_or_default_def DEFAULT_CONFIG_def dict_get_def)

lemma default_min_activities:
  "dict_get (config_or_default None) ''min_activities'' 5 = 5"
  by (simp add: config_or_default_def DEFAULT_CONFIG_def dict_get_def)

lemma should_schedule_quiz_default:
  "should_schedule_quiz summ None =
     (\<not> (session_duration summ < 15 \<or> session_activities summ < 5))"
  unfolding should_schedule_quiz_def Let_def default_min_session_minutes
    default_min_activities
  by (simp add: session_duration_def session_activities_def dict_get_def
      split: option.splits)

text \<open>
  C5. Under the default configuration \<^verbatim>\<open>should_schedule_quiz\<close> returns false exactly when
  the session lasted less than 15 minutes or recorded fewer than 5 activities, and true
  otherwise; a summary with exactly 15 minutes and exactly 5 activities is eligible.
\<close>

theorem C5_should_schedule_quiz_thresholds:
  "(should_schedule_quiz summ None = False
      \<longleftrightarrow> session_duration summ < 15 \<or> session_activities summ < 5)
   \<and> (should_schedule_quiz summ None = True
      \<longleftrightarrow> \<not> (session_duration summ < 15 \<or> session_activities summ < 5))
   \<and> should_schedule_quiz
        \<lparr>duration_minutes = Some 15, stats = Some [(''total_activities'', 5)]\<rparr> None = True"
  by (simp add: should_schedule_quiz_default session_duration_def session_activities_def)

text \<open>
  C10. A summary without the \<^verbatim>\<open>duration_minutes\<close> key, or without the \<^verbatim>\<open>stats\<close> key, or
  whose \<^verbatim>\<open>stats\<close> has no \<^verbatim>\<open>total_activities\<close> entry, is read as 0 there and is not
  eligible under the default configuration.
\<close>

theorem C10_missing_keys_not_eligible:
  assumes "duration_minutes summ = None
           \<or> stats summ = None
           \<or> (\<exists>s. stats summ = Some s \<and> map_of s ''total_activities'' = None)"
  shows "should_schedule_quiz summ None = False"
  using assms
  by (auto simp add: should_schedule_quiz_default session_duration_def
      session_activities_def)

theorem C10_empty_summary_witness:
  "(duration_minutes \<lparr>duration_minutes = None, stats = None\<rparr> = None
    \<or> stats \<lparr>duration_minutes = None, stats = None\<rparr> = None
    \<or> (\<exists>s. stats \<lparr>duration_minutes = None, stats = None\<rparr> = Some s
          \<and> map_of s ''total_activities'' = None))
   \<and> should_schedule_quiz \<lparr>duration_minutes = None, stats = None\<rparr> None = False"
  using C10_missing_keys_not_eligible [of "\<lparr>duration_minutes = None, stats = None\<rparr>"]
  by simp

section \<open>Weekly scheduling\<close>

text \<open>
  Adding whole days to a valid datetime moves the date and keeps the time of day, as long
  as the date stays in the calendar.
\<close>

lemma dt_plus_days:
  assumes "valid_datetime now" and "0 < d" and "d \<le> 7"
  shows "dt_plus now d 0 =
           (if ordinal now + d \<le> MAXORDINAL
            then Inr (now\<lparr>ordinal := ordinal now + d\<rparr>)
            else Inl OverflowError)"
proof -
  from assms(1) have b: "0 \<le> hour now" "hour now \<le> 23" "0 \<le> minute now" "minute now \<le> 59"
    "0 \<le> second now" "second now \<le> 59" "0 \<le> microsecond now" "microsecond now \<le> 999999"
    and o: "1 \<le> ordinal now"
    by (simp_all add: valid_datetime_def)
  define secs where "secs = hour now * 3600 + minute now * 60 + second now"
  have s: "0 \<le> secs" "secs < 86400" using b by (simp_all add: secs_def)
  have us: "microsecond now div 1000000 = 0" "microsecond now mod 1000000 = microsecond now"
    using b by simp_all
  have dm: "secs div 86400 = 0" "secs mod 86400 = secs" using s by simp_all
  define x where "x = minute now * 60 + second now"
  have x: "0 \<le> x" "x < 3600" using b by (simp_all add: x_def)
  have sx: "secs = x + hour now * 3600" by (simp add: secs_def x_def)
  have h: "secs div 3600 = hour now" unfolding sx using x by simp
  have r: "secs mod 3600 = minute now * 60 + second now" unfolding sx using x
    by (simp add: x_def)
  have m: "(minute now * 60 + second now) div 60 = minute now"
    "(minute now * 60 + second now) mod 60 = second now" using b by simp_all
  have s60: "second now mod 60 = second now" using b by simp
  note facts = us dm [unfolded secs_def] h [unfolded secs_def] r [unfolded secs_def] m s60
  have td: "timedelta_of d 0 = Inr \<lparr>td_days = d, td_seconds = 0, td_microseconds = 0\<rparr>"
    using assms(2,3) by (simp add: timedelta_of_def)
  have pos: "0 < ordinal now + d" using o assms(2) by simp
  have rec: "\<lparr>ordinal = ordinal now + d, hour = hour now, minute = minute now,
              second = second now, microsecond = microsecond now\<rparr>
             = now\<lparr>ordinal := ordinal now + d\<rparr>"
    by (intro datetime.equality) simp_all
  have "dt_add now \<lparr>td_days = d, td_seconds = 0, td_microseconds = 0\<rparr> =
          (if ordinal now + d \<le> MAXORDINAL
           then Inr \<lparr>ordinal = ordinal now + d, hour = hour now, minute = minute now,
                     second = second now, microsecond = microsecond now\<rparr>
           else Inl OverflowError)"
    unfolding dt_add_def Let_def using pos by (simp add: facts)
  then show ?thesis
    unfolding dt_plus_def td rec by simp
qed

text \<open>The arithmetic of \<^verbatim>\<open>days_ahead\<close>, on the ordinal \<open>n\<close> of today.\<close>

lemma days_ahead_arith:
  fixes n w :: int
  assumes w: "0 \<le> w" "w \<le> 6"
  defines "d0 \<equiv> w - (n + 6) mod 7"
  defines "d \<equiv> (if d0 \<le> 0 then d0 + 7 else d0)"
  shows "(n + d + 6) mod 7 = w" "0 < d" "d \<le> 7"
proof -
  define m where "m = (n + 6) mod 7"
  have m: "0 \<le> m" "m < 7" by (simp_all add: m_def)
  have n: "n + 6 = 7 * ((n + 6) div 7) + m" by (simp add: m_def)
  have d: "d = (if w \<le> m then w - m + 7 else w - m)"
    by (simp add: d_def d0_def m_def)
  have aux: "(w + 7 * q) mod 7 = w" for q :: int using w by simp
  show "(n + d + 6) mod 7 = w"
  proof (cases "w \<le> m")
    case True
    have "n + d + 6 = w + 7 * ((n + 6) div 7 + 1)" using n True by (simp add: d)
    then show ?thesis by (simp only: aux)
  next
    case False
    have "n + d + 6 = w + 7 * ((n + 6) div 7)" using n False by (simp add: d)
    then show ?thesis by (simp only: aux)
  qed
  show "0 < d" using m w by (simp add: d)
  show "d \<le> 7" using m w by (simp add: d)
qed

text \<open>The code's \<^verbatim>\<open>days_ahead\<close> is the distance to the next day of that weekday.\<close>

lemma days_ahead_is_days_until:
  assumes w: "0 \<le> w" "w \<le> 6"
  shows "(if w - weekday now \<le> 0 then w - weekday now + 7 else w - weekday now)
           = days_until w now"
proof -
  define m where "m = weekday now"
  have m: "0 \<le> m" "m < 7" by (simp_all add: m_def weekday_def)
  show ?thesis
  proof (cases "w \<le> m")
    case True
    then have "w - m - 1 = (w - m + 6) + (- 1) * 7" by simp
    then have "(w - m - 1) mod 7 = (w - m + 6) mod 7"
      by (simp only: mod_mult_self1)
    also have "\<dots> = w - m + 6" using True w m by simp
    finally show ?thesis using True by (simp add: days_until_def m_def [symmetric])
  next
    case False
    then have "(w - m - 1) mod 7 = w - m - 1" using w m by simp
    then show ?thesis using False by (simp add: days_until_def m_def [symmetric])
  qed
qed

lemma days_until_props:
  assumes w: "0 \<le> w" "w \<le> 6"
  shows "(ordinal now + days_until w now + 6) mod 7 = w"
    and "0 < days_until w now"
    and "days_until w now \<le> 7"
proof -
  have e: "(if w - (ordinal now + 6) mod 7 \<le> 0 then w - (ordinal now + 6) mod 7 + 7
            else w - (ordinal now + 6) mod 7) = days_until w now"
    using days_ahead_is_days_until [OF w, of now] unfolding weekday_def .
  show "(ordinal now + days_until w now + 6) mod 7 = w"
    using days_ahead_arith(1) [OF w, of "ordinal now"] unfolding e .
  show "0 < days_until w now"
    using days_ahead_arith(2) [OF w, of "ordinal now"] unfolding e .
  show "days_until w now \<le> 7"
    using days_ahead_arith(3) [OF w, of "ordinal now"] unfolding e .
qed

lemma schedule_quiz_weekly:
  assumes v: "valid_datetime now"
      and w: "0 \<le> weekly_day_of config0" "weekly_day_of config0 \<le> 6"
  shows "schedule_quiz now clock sid WEEKLY path config0 =
           (if ordinal now + days_until (weekly_day_of config0) now \<le> MAXORDINAL
            then Inr (QuizSchedule_init clock sid WEEKLY
                       (now\<lparr>ordinal := ordinal now + days_until (weekly_day_of config0) now,
                             hour := 9, minute := 0, second := 0, microsecond := 0\<rparr>)
                       path None)
            else Inl OverflowError)"
proof -
  define d where "d = days_until (weekly_day_of config0) now"
  have e: "(if weekly_day_of config0 - weekday now \<le> 0
            then weekly_day_of config0 - weekday now + 7
            else weekly_day_of config0 - weekday now) = d"
    unfolding d_def by (rule days_ahead_is_days_until [OF w])
  have r: "0 < d" "d \<le> 7"
    unfolding d_def by (rule days_until_props [OF w])+
  have p: "dt_plus now d 0 =
           (if ordinal now + d \<le> MAXORDINAL
            then Inr (now\<lparr>ordinal := ordinal now + d\<rparr>)
            else Inl OverflowError)"
    by (rule dt_plus_days [OF v r])
  show ?thesis
    unfolding schedule_quiz_def Let_def weekly_day_of_def [symmetric] e p
    unfolding d_def [symmetric]
    by (simp add: dt_replace_def)
qed

text \<open>
  C1, as the code has it. Whatever the current time \<open>now\<close> (a valid datetime) and whatever
  weekday between 0 and 6 the configuration asks for: if the next date after today that
  falls on that weekday is still in the calendar (not after 31 December 9999; so it is
  whenever today is 24 December 9999 or earlier), \<^verbatim>\<open>schedule_quiz\<close> with type \<^verbatim>\<open>WEEKLY\<close>
  returns a schedule whose \<^verbatim>\<open>scheduled_for\<close> falls on that weekday, on a date more than 0
  and at most 7 days after today's (so never today, even when today is that weekday), at
  09:00:00.000 exactly. If that date is past the calendar, the addition raises
  \<^verbatim>\<open>OverflowError\<close> and no schedule is returned.
\<close>

theorem C1_weekly_schedule:
  assumes v: "valid_datetime now"
      and w: "0 \<le> weekly_day_of config0" "weekly_day_of config0 \<le> 6"
  shows "(ordinal now + days_until (weekly_day_of config0) now \<le> MAXORDINAL
          \<longrightarrow> (\<exists>q. schedule_quiz now clock sid WEEKLY path config0 = Inr q
                \<and> session_id q = sid \<and> schedule_type q = WEEKLY \<and> summary_path q = path
                \<and> weekday (scheduled_for q) = weekly_day_of config0
                \<and> 0 < date_diff_days (scheduled_for q) now
                \<and> date_diff_days (scheduled_for q) now \<le> 7
                \<and> hour (scheduled_for q) = 9 \<and> minute (scheduled_for q) = 0
                \<and> second (scheduled_for q) = 0 \<and> microsecond (scheduled_for q) = 0))
         \<and> (MAXORDINAL < ordinal now + days_until (weekly_day_of config0) now
          \<longrightarrow> schedule_quiz now clock sid WEEKLY path config0 = Inl OverflowError)
         \<and> (ordinal now + 7 \<le> MAXORDINAL
          \<longrightarrow> ordinal now + days_until (weekly_day_of config0) now \<le> MAXORDINAL)"
proof -
  define wd where "wd = weekly_day_of config0"
  define d where "d = days_until wd now"
  have ar: "(ordinal now + d + 6) mod 7 = wd" "0 < d" "d \<le> 7"
    unfolding d_def wd_def by (rule days_until_props [OF w])+
  note sq = schedule_quiz_weekly [OF v w, of clock sid path, folded wd_def]
  have one: "\<exists>q. schedule_quiz now clock sid WEEKLY path config0 = Inr q
                \<and> session_id q = sid \<and> schedule_type q = WEEKLY \<and> summary_path q = path
                \<and> weekday (scheduled_for q) = wd
                \<and> 0 < date_diff_days (scheduled_for q) now
                \<and> date_diff_days (scheduled_for q) now \<le> 7
                \<and> hour (scheduled_for q) = 9 \<and> minute (scheduled_for q) = 0
                \<and> second (scheduled_for q) = 0 \<and> microsecond (scheduled_for q) = 0"
    if "ordinal now + d \<le> MAXORDINAL"
    using that ar unfolding d_def
    by (simp add: sq QuizSchedule_init_def weekday_def date_diff_days_def)
  have two: "schedule_quiz now clock sid WEEKLY path config0 = Inl OverflowError"
    if "MAXORDINAL < ordinal now + d"
    using that unfolding d_def by (simp add: sq)
  have three: "ordinal now + d \<le> MAXORDINAL" if "ordinal now + 7 \<le> MAXORDINAL"
    using that ar by simp
  from one two three show ?thesis
    unfolding wd_def [symmetric] d_def [symmetric] by blast
qed

text \<open>
  The theorem at a concrete clock: day 739925 is a Thursday (weekday 3), the configuration
  asks for Thursday, and the quiz is scheduled for a later day, at most a week ahead.
\<close>

theorem C1_weekly_schedule_witness:
  "valid_datetime \<lparr>ordinal = 739925, hour = 23, minute = 59, second = 59, microsecond = 999999\<rparr>
   \<and> weekday \<lparr>ordinal = 739925, hour = 23, minute = 59, second = 59, microsecond = 999999\<rparr> = 3
   \<and> weekly_day_of (Some [(''weekly_day'', 3)]) = 3
   \<and> ordinal \<lparr>ordinal = 739925, hour = 23, minute = 59, second = 59, microsecond = 999999\<rparr>
       + days_until 3
           \<lparr>ordinal = 739925, hour = 23, minute = 59, second = 59, microsecond = 999999\<rparr>
       \<le> MAXORDINAL
   \<and> (\<exists>q. schedule_quiz
              \<lparr>ordinal = 739925, hour = 23, minute = 59, second = 59, microsecond = 999999\<rparr>
              \<lparr>ordinal = 739925, hour = 23, minute = 59, second = 59, microsecond = 999999\<rparr>
              ''abc123'' WEEKLY ''summary.json'' (Some [(''weekly_day'', 3)]) = Inr q
          \<and> weekday (scheduled_for q) = 3
          \<and> 0 < date_diff_days (scheduled_for q)
                 \<lparr>ordinal = 739925, hour = 23, minute = 59, second = 59, microsecond = 999999\<rparr>
          \<and> date_diff_days (scheduled_for q)
               \<lparr>ordinal = 739925, hour = 23, minute = 59, second = 59, microsecond = 999999\<rparr> \<le> 7
          \<and> hour (scheduled_for q) = 9 \<and> minute (scheduled_for q) = 0
          \<and> second (scheduled_for q) = 0 \<and> microsecond (scheduled_for q) = 0)"
proof -
  let ?now = "\<lparr>ordinal = 739925, hour = 23, minute = 59, second = 59, microsecond = 999999\<rparr>"
  let ?cfg = "Some [(''weekly_day'', 3 :: int)]"
  have v: "valid_datetime ?now" by (simp add: valid_datetime_def MAXORDINAL_def)
  have wd: "weekday ?now = 3" by (simp add: weekday_def)
  have c: "weekly_day_of ?cfg = 3"
    by (simp add: weekly_day_of_def config_or_default_def dict_get_def)
  have u: "ordinal ?now + days_until 3 ?now \<le> MAXORDINAL"
    by (simp add: days_until_def wd MAXORDINAL_def)
  from C1_weekly_schedule [OF v, of ?cfg ?now "''abc123''" "''summary.json''"] u
  obtain q where q: "schedule_quiz ?now ?now ''abc123'' WEEKLY ''summary.json'' ?cfg = Inr q"
    "weekday (scheduled_for q) = 3" "0 < date_diff_days (scheduled_for q) ?now"
    "date_diff_days (scheduled_for q) ?now \<le> 7"
    "hour (scheduled_for q) = 9" "minute (scheduled_for q) = 0"
    "second (scheduled_for q) = 0" "microsecond (scheduled_for q) = 0"
    unfolding c by auto
  with v wd c u show ?thesis by blast
qed

text \<open>
  C1 as the specification words it, for every current time, fails at the end of the
  calendar: on Friday 31 December 9999, a valid \<open>now\<close>, the default configuration asks for
  the Friday a week later, \<^verbatim>\<open>now + timedelta(days=7)\<close> raises \<^verbatim>\<open>OverflowError\<close>, and
  \<^verbatim>\<open>schedule_quiz\<close> returns no schedule.
\<close>

theorem C1_end_of_calendar_counterexample:
  "valid_datetime dec31_9999
   \<and> weekday dec31_9999 = 4
   \<and> weekly_day_of None = 4
   \<and> schedule_quiz dec31_9999 dec31_9999 ''abc123'' WEEKLY ''summary.json'' None
       = Inl OverflowError"
  by (simp add: valid_datetime_def dec31_9999_def MAXORDINAL_def weekday_def
      weekly_day_of_def config_or_default_def DEFAULT_CONFIG_def dict_get_def
      schedule_quiz_def dt_plus_def timedelta_of_def dt_add_def)

section \<open>Deserialization\<close>

lemma ScheduleType_of_unknown: "s \<notin> known_types \<Longrightarrow> ScheduleType_of s = Inl ValueError"
  by (simp add: ScheduleType_of_def known_types_def)

lemma ScheduleType_of_value: "ScheduleType_of (ScheduleType_value t) = Inr t"
  by (cases t) (simp_all add: ScheduleType_of_def)

lemma ScheduleType_of_Inr: "ScheduleType_of s = Inr t \<Longrightarrow> s \<in> known_types"
  by (auto simp add: ScheduleType_of_def known_types_def split: if_splits)

text \<open>
  C8. A serialized quiz whose \<^verbatim>\<open>type\<close> is none of \<^verbatim>\<open>same_day\<close>, \<^verbatim>\<open>next_day\<close>,
  \<^verbatim>\<open>weekly\<close>, \<^verbatim>\<open>on_demand\<close> (or is absent) makes \<^verbatim>\<open>from_dict\<close> raise: \<^verbatim>\<open>KeyError\<close> when
  \<^verbatim>\<open>session_id\<close> or \<^verbatim>\<open>type\<close> is missing, \<^verbatim>\<open>ValueError\<close> from \<^verbatim>\<open>ScheduleType(...)\<close>
  otherwise. No schedule, of any type, is returned.
\<close>

theorem C8_unknown_type_fails:
  assumes "map_of data ''type'' \<notin> Some ` known_types"
  shows "from_dict fromisoformat isoformat clock data =
           Inl (if map_of data ''session_id'' = None then KeyError ''session_id''
                else if map_of data ''type'' = None then KeyError ''type''
                else ValueError)
         \<and> (\<forall>q. from_dict fromisoformat isoformat clock data \<noteq> Inr q)"
proof -
  have "ScheduleType_of s = Inl ValueError" if "map_of data ''type'' = Some s" for s
    using assms that by (intro ScheduleType_of_unknown) auto
  then show ?thesis
    by (auto simp add: from_dict_def getitem_def split: option.splits)
qed

theorem C8_unknown_type_witness:
  "map_of (sample_quiz ''abc123'' ''monthly'' ''2026-01-30T14:00:00'') ''type''
     \<notin> Some ` known_types
   \<and> from_dict sample_fromisoformat sample_isoformat jan30_1400
        (sample_quiz ''abc123'' ''monthly'' ''2026-01-30T14:00:00'') = Inl ValueError"
  using C8_unknown_type_fails
    [of "sample_quiz ''abc123'' ''monthly'' ''2026-01-30T14:00:00''"
        sample_fromisoformat sample_isoformat jan30_1400]
  by (simp add: sample_quiz_def known_types_def)

section \<open>Due quizzes\<close>

lemma dt_le_refl: "dt_le t t"
  by (simp add: dt_le_def)

lemma dt_le_total: "dt_le a b \<or> dt_le b a"
  by (auto simp add: dt_le_def)

lemma dt_le_trans: "dt_le a b \<Longrightarrow> dt_le b c \<Longrightarrow> dt_le a c"
  by (auto simp add: dt_le_def)

lemma dt_le_antisym: "dt_le a b \<Longrightarrow> dt_le b a \<Longrightarrow> a = b"
  by (intro datetime.equality) (auto simp add: dt_le_def)

lemma get_due_loop_filter:
  "list_all (has_timestamp f) ps \<Longrightarrow>
     get_due_loop f now ps due = Inr (due @ filter (is_due f now) ps)"
  by (induction ps arbitrary: due)
     (auto simp add: getitem_def has_timestamp_def is_due_def scheduled_time_def
       split: option.splits sum.splits)

lemma get_due_loop_subset:
  "get_due_loop f now ps due = Inr out \<Longrightarrow> set out \<subseteq> set due \<union> set ps"
proof (induction ps arbitrary: due)
  case Nil
  then show ?case by simp
next
  case (Cons q ps)
  from Cons.prems obtain due' where
    "get_due_loop f now ps due' = Inr out" "set due' \<subseteq> set due \<union> {q}"
    by (auto split: sum.splits if_splits)
  with Cons.IH [of due'] show ?case by auto
qed

lemma get_due_quizzes_subset:
  "get_due_quizzes f now st = Inr out \<Longrightarrow> set out \<subseteq> set (pending_of st)"
  using get_due_loop_subset [of f now "pending_of st" "[]" out]
  by (simp add: get_due_quizzes_def pending_of_def)

text \<open>
  C2. On a state whose pending entries all carry a timestamp, \<^verbatim>\<open>get_due_quizzes\<close> returns
  exactly the pending entries scheduled at or before \<open>now\<close>, in the order they have in
  \<^verbatim>\<open>pending_quizzes\<close>: an entry scheduled for exactly \<open>now\<close> is returned, an entry scheduled
  after \<open>now\<close> is not.
\<close>

theorem C2_get_due_quizzes:
  assumes "list_all (has_timestamp fromisoformat) (pending_of st)"
  shows "get_due_quizzes fromisoformat now st =
           Inr (filter (is_due fromisoformat now) (pending_of st))
         \<and> (\<forall>q. scheduled_time fromisoformat q = Some now \<longrightarrow> is_due fromisoformat now q)
         \<and> (\<forall>q t. scheduled_time fromisoformat q = Some t \<and> \<not> dt_le t now
                \<longrightarrow> \<not> is_due fromisoformat now q)"
  using get_due_loop_filter [OF assms, of now "[]"]
  by (simp add: get_due_quizzes_def pending_of_def is_due_def dt_le_refl)

text \<open>
  At 14:00 on 30 January, with pending entries for 14:00 that day, 09:00 the next day and
  18:30 the day before, in this order: the first and the third are due, in this order.
\<close>

theorem C2_get_due_quizzes_witness:
  "list_all (has_timestamp sample_fromisoformat)
     [sample_quiz ''s1'' ''on_demand'' ''2026-01-30T14:00:00'',
      sample_quiz ''s2'' ''next_day'' ''2026-01-31T09:00:00'',
      sample_quiz ''s3'' ''same_day'' ''2026-01-29T18:30:00'']
   \<and> get_due_quizzes sample_fromisoformat jan30_1400
        \<lparr>project = Some ''demo'', sessions = Some ([] :: string list),
         pending_quizzes = Some
           [sample_quiz ''s1'' ''on_demand'' ''2026-01-30T14:00:00'',
            sample_quiz ''s2'' ''next_day'' ''2026-01-31T09:00:00'',
            sample_quiz ''s3'' ''same_day'' ''2026-01-29T18:30:00''],
         completed_quizzes = Some ([] :: unit completion list),
         topic_scores = None\<rparr>
       = Inr [sample_quiz ''s1'' ''on_demand'' ''2026-01-30T14:00:00'',
              sample_quiz ''s3'' ''same_day'' ''2026-01-29T18:30:00'']"
proof -
  let ?ps = "[sample_quiz ''s1'' ''on_demand'' ''2026-01-30T14:00:00'',
              sample_quiz ''s2'' ''next_day'' ''2026-01-31T09:00:00'',
              sample_quiz ''s3'' ''same_day'' ''2026-01-29T18:30:00'']"
  let ?st = "\<lparr>project = Some ''demo'', sessions = Some ([] :: string list),
              pending_quizzes = Some ?ps,
              completed_quizzes = Some ([] :: unit completion list),
              topic_scores = None\<rparr>"
  have t: "scheduled_time sample_fromisoformat
             (sample_quiz ''s1'' ''on_demand'' ''2026-01-30T14:00:00'') = Some jan30_1400"
    "scheduled_time sample_fromisoformat
             (sample_quiz ''s2'' ''next_day'' ''2026-01-31T09:00:00'') = Some jan31_0900"
    "scheduled_time sample_fromisoformat
             (sample_quiz ''s3'' ''same_day'' ''2026-01-29T18:30:00'') = Some jan29_1830"
    by (simp_all add: scheduled_time_def sample_quiz_def sample_fromisoformat_def)
  have p: "pending_of ?st = ?ps" by (simp add: pending_of_def)
  have h: "list_all (has_timestamp sample_fromisoformat) (pending_of ?st)"
    unfolding p by (simp add: has_timestamp_def t)
  have d: "dt_le jan30_1400 jan30_1400" "\<not> dt_le jan31_0900 jan30_1400"
    "dt_le jan29_1830 jan30_1400"
    by (simp_all add: dt_le_def jan29_1830_def jan30_1400_def jan31_0900_def)
  from C2_get_due_quizzes [OF h, of jan30_1400] h show ?thesis
    unfolding p by (simp add: is_due_def t d)
qed

section \<open>Loading the state\<close>





section \<open>Completing a quiz\<close>

lemma remove_session_filter:
  "list_all has_session ps \<Longrightarrow>
   remove_session sid ps = Inr (filter (\<lambda>q. \<not> of_session sid q) ps)"
  by (induction ps)
     (auto simp add: getitem_def has_session_def of_session_def split: option.splits)

lemma remove_session_subset:
  "remove_session sid ps = Inr kept \<Longrightarrow> set kept \<subseteq> set ps"
  by (induction ps arbitrary: kept) (auto split: sum.splits if_splits)

lemma add_pending_quiz_Inr:
  assumes "add_pending_quiz isoformat s sched = Inr s'"
  shows "completed_quizzes s' = completed_quizzes s"
    and "pending_of s' = pending_of s @ [to_dict isoformat sched]"
  using assms by (auto simp add: add_pending_quiz_def pending_of_def split: option.splits)

lemma mark_quiz_completed_Inr:
  assumes "mark_quiz_completed isoformat t s sid res = Inr s'"
  shows "\<exists>cs0. completed_quizzes s = Some cs0
           \<and> completed_quizzes s' = Some (cs0 @
                [\<lparr>c_session_id = sid, c_completed_at = isoformat t, c_result = res\<rparr>])"
    and "set (pending_of s') \<subseteq> set (pending_of s)"
  using assms remove_session_subset [of sid "pending_of s"]
  by (auto simp add: mark_quiz_completed_def pending_of_def split: option.splits sum.splits)

lemma merge_keeps_lists:
  "completed_quizzes (merge_result_into_state s r) = completed_quizzes s"
  "pending_quizzes (merge_result_into_state s r) = pending_quizzes s"
  by (simp_all add: merge_result_into_state_def)

text \<open>
  C3. On a state that has both lists and whose pending entries each name a session,
  \<^verbatim>\<open>mark_quiz_completed\<close> returns the state with every pending entry of session \<open>sid\<close>
  removed (duplicates too) and exactly one completion record, holding \<open>sid\<close>, the
  timestamp and the result, appended to \<^verbatim>\<open>completed_quizzes\<close>. Afterwards \<open>sid\<close> is
  in no pending entry and in no entry \<^verbatim>\<open>get_due_quizzes\<close> returns, at any time. No
  operation moves a record back: \<^verbatim>\<open>add_pending_quiz\<close> leaves \<^verbatim>\<open>completed_quizzes\<close> as it
  is and appends the caller's schedule only, \<^verbatim>\<open>mark_quiz_completed\<close> only appends to
  \<^verbatim>\<open>completed_quizzes\<close> and only removes from \<^verbatim>\<open>pending_quizzes\<close>, and
  \<^verbatim>\<open>merge_result_into_state\<close> touches neither list.
\<close>

theorem C3_mark_quiz_completed:
  fixes st :: "('s, 'r) state"
  assumes "pending_quizzes st = Some ps"
      and "completed_quizzes st = Some cs"
      and "list_all has_session ps"
  shows "\<exists>st'. mark_quiz_completed isoformat now st sid res = Inr st'
           \<and> pending_quizzes st' = Some (filter (\<lambda>q. \<not> of_session sid q) ps)
           \<and> completed_quizzes st' = Some (cs @
                [\<lparr>c_session_id = sid, c_completed_at = isoformat now, c_result = res\<rparr>])
           \<and> project st' = project st \<and> sessions st' = sessions st
           \<and> topic_scores st' = topic_scores st
           \<and> (\<forall>q \<in> set (pending_of st'). \<not> of_session sid q)
           \<and> (\<forall>f t due. get_due_quizzes f t st' = Inr due
                 \<longrightarrow> (\<forall>q \<in> set due. \<not> of_session sid q))
           \<and> (\<forall>(s :: ('s, 'r) state) sched s'.
                 add_pending_quiz isoformat s sched = Inr s'
                 \<longrightarrow> completed_quizzes s' = completed_quizzes s
                     \<and> pending_of s' = pending_of s @ [to_dict isoformat sched])
           \<and> (\<forall>(s :: ('s, 'r) state) t sid' res' s'.
                 mark_quiz_completed isoformat t s sid' res' = Inr s'
                 \<longrightarrow> (\<exists>cs0. completed_quizzes s = Some cs0
                        \<and> completed_quizzes s' = Some (cs0 @
                             [\<lparr>c_session_id = sid', c_completed_at = isoformat t,
                               c_result = res'\<rparr>]))
                     \<and> set (pending_of s') \<subseteq> set (pending_of s))
           \<and> (\<forall>(s :: ('s, 'r) state) r.
                 completed_quizzes (merge_result_into_state s r) = completed_quizzes s
                 \<and> pending_quizzes (merge_result_into_state s r) = pending_quizzes s)"
proof -
  define st' where "st' = st\<lparr>pending_quizzes := Some (filter (\<lambda>q. \<not> of_session sid q) ps),
      completed_quizzes := Some (cs @
        [\<lparr>c_session_id = sid, c_completed_at = isoformat now, c_result = res\<rparr>])\<rparr>"
  have m: "mark_quiz_completed isoformat now st sid res = Inr st'"
    using assms by (simp add: mark_quiz_completed_def remove_session_filter st'_def)
  have p: "pending_of st' = filter (\<lambda>q. \<not> of_session sid q) ps"
    by (simp add: pending_of_def st'_def)
  have a: "\<forall>q \<in> set (pending_of st'). \<not> of_session sid q"
    unfolding p by simp
  have d: "\<forall>f t due. get_due_quizzes f t st' = Inr due
             \<longrightarrow> (\<forall>q \<in> set due. \<not> of_session sid q)"
    using get_due_quizzes_subset a by blast
  have f: "pending_quizzes st' = Some (filter (\<lambda>q. \<not> of_session sid q) ps)"
    "completed_quizzes st' = Some (cs @
        [\<lparr>c_session_id = sid, c_completed_at = isoformat now, c_result = res\<rparr>])"
    "project st' = project st" "sessions st' = sessions st"
    "topic_scores st' = topic_scores st"
    by (simp_all add: st'_def)
  have o1: "\<forall>(s :: ('s, 'r) state) sched s'.
                 add_pending_quiz isoformat s sched = Inr s'
                 \<longrightarrow> completed_quizzes s' = completed_quizzes s
                     \<and> pending_of s' = pending_of s @ [to_dict isoformat sched]"
    by (intro allI impI conjI) (erule add_pending_quiz_Inr)+
  have o2: "\<forall>(s :: ('s, 'r) state) t sid' res' s'.
                 mark_quiz_completed isoformat t s sid' res' = Inr s'
                 \<longrightarrow> (\<exists>cs0. completed_quizzes s = Some cs0
                        \<and> completed_quizzes s' = Some (cs0 @
                             [\<lparr>c_session_id = sid', c_completed_at = isoformat t,
                               c_result = res'\<rparr>]))
                     \<and> set (pending_of s') \<subseteq> set (pending_of s)"
    by (intro allI impI conjI) (erule mark_quiz_completed_Inr)+
  have o3: "\<forall>(s :: ('s, 'r) state) r.
                 completed_quizzes (merge_result_into_state s r) = completed_quizzes s
                 \<and> pending_quizzes (merge_result_into_state s r) = pending_quizzes s"
    by (simp add: merge_keeps_lists)
  show ?thesis
    by (rule exI [of _ st']) (intro conjI m f a d o1 o2 o3)
qed


text \<open>
  Session \<^verbatim>\<open>s1\<close> is pending twice, session \<^verbatim>\<open>s2\<close> once; completing \<^verbatim>\<open>s1\<close> leaves the
  entry of \<^verbatim>\<open>s2\<close>, which is the only due quiz the next morning.
\<close>

theorem C3_mark_quiz_completed_witness:
  "pending_quizzes
     \<lparr>project = Some ''demo'', sessions = Some ([] :: string list),
      pending_quizzes = Some
        [sample_quiz ''s1'' ''on_demand'' ''2026-01-30T14:00:00'',
         sample_quiz ''s2'' ''next_day'' ''2026-01-31T09:00:00'',
         sample_quiz ''s1'' ''same_day'' ''2026-01-29T18:30:00''],
      completed_quizzes = Some ([] :: (string, int) dict completion list),
      topic_scores = None\<rparr>
   = Some [sample_quiz ''s1'' ''on_demand'' ''2026-01-30T14:00:00'',
           sample_quiz ''s2'' ''next_day'' ''2026-01-31T09:00:00'',
           sample_quiz ''s1'' ''same_day'' ''2026-01-29T18:30:00'']
   \<and> list_all has_session
        [sample_quiz ''s1'' ''on_demand'' ''2026-01-30T14:00:00'',
         sample_quiz ''s2'' ''next_day'' ''2026-01-31T09:00:00'',
         sample_quiz ''s1'' ''same_day'' ''2026-01-29T18:30:00'']
   \<and> mark_quiz_completed sample_isoformat jan30_1400
        \<lparr>project = Some ''demo'', sessions = Some ([] :: string list),
         pending_quizzes = Some
           [sample_quiz ''s1'' ''on_demand'' ''2026-01-30T14:00:00'',
            sample_quiz ''s2'' ''next_day'' ''2026-01-31T09:00:00'',
            sample_quiz ''s1'' ''same_day'' ''2026-01-29T18:30:00''],
         completed_quizzes = Some ([] :: (string, int) dict completion list),
         topic_scores = None\<rparr>
        ''s1'' [(''score'', 100), (''total'', 3)]
     = Inr \<lparr>project = Some ''demo'', sessions = Some [],
            pending_quizzes = Some [sample_quiz ''s2'' ''next_day'' ''2026-01-31T09:00:00''],
            completed_quizzes = Some
              [\<lparr>c_session_id = ''s1'', c_completed_at = ''2026-01-30T14:00:00'',
                c_result = [(''score'', 100), (''total'', 3)]\<rparr>],
            topic_scores = None\<rparr>
   \<and> get_due_quizzes sample_fromisoformat jan31_0900
        \<lparr>project = Some ''demo'', sessions = Some ([] :: string list),
         pending_quizzes = Some [sample_quiz ''s2'' ''next_day'' ''2026-01-31T09:00:00''],
         completed_quizzes = Some
           [\<lparr>c_session_id = ''s1'', c_completed_at = ''2026-01-30T14:00:00'',
             c_result = [(''score'', 100 :: int), (''total'', 3)]\<rparr>],
         topic_scores = None\<rparr>
     = Inr [sample_quiz ''s2'' ''next_day'' ''2026-01-31T09:00:00'']"
proof -
  let ?ps = "[sample_quiz ''s1'' ''on_demand'' ''2026-01-30T14:00:00'',
              sample_quiz ''s2'' ''next_day'' ''2026-01-31T09:00:00'',
              sample_quiz ''s1'' ''same_day'' ''2026-01-29T18:30:00'']"
  let ?res = "[(''score'', 100 :: int), (''total'', 3)]"
  let ?st = "\<lparr>project = Some ''demo'', sessions = Some ([] :: string list),
              pending_quizzes = Some ?ps,
              completed_quizzes = Some ([] :: (string, int) dict completion list),
              topic_scores = None\<rparr>"
  have h1: "pending_quizzes ?st = Some ?ps" by simp
  have h2: "completed_quizzes ?st = Some []" by simp
  have h3: "list_all has_session ?ps" by (simp add: has_session_def sample_quiz_def)
  have k: "\<not> of_session ''s1'' (sample_quiz ''s2'' ''next_day'' ''2026-01-31T09:00:00'')"
    "of_session ''s1'' (sample_quiz ''s1'' ''on_demand'' ''2026-01-30T14:00:00'')"
    "of_session ''s1'' (sample_quiz ''s1'' ''same_day'' ''2026-01-29T18:30:00'')"
    by (simp_all add: of_session_def sample_quiz_def)
  have i: "sample_isoformat jan30_1400 = ''2026-01-30T14:00:00''"
    by (simp add: sample_isoformat_def jan30_1400_def jan29_1830_def)
  from C3_mark_quiz_completed [OF h1 h2 h3, of sample_isoformat jan30_1400 "''s1''" ?res]
  obtain st' where
    m: "mark_quiz_completed sample_isoformat jan30_1400 ?st ''s1'' ?res = Inr st'"
    and f: "pending_quizzes st' = Some (filter (\<lambda>q. \<not> of_session ''s1'' q) ?ps)"
      "completed_quizzes st' = Some ([] @
         [\<lparr>c_session_id = ''s1'', c_completed_at = sample_isoformat jan30_1400,
           c_result = ?res\<rparr>])"
      "project st' = project ?st" "sessions st' = sessions ?st"
      "topic_scores st' = topic_scores ?st"
    by blast
  have e: "st' = \<lparr>project = Some ''demo'', sessions = Some [],
            pending_quizzes = Some [sample_quiz ''s2'' ''next_day'' ''2026-01-31T09:00:00''],
            completed_quizzes = Some
              [\<lparr>c_session_id = ''s1'', c_completed_at = ''2026-01-30T14:00:00'',
                c_result = ?res\<rparr>],
            topic_scores = None\<rparr>"
    using f by (intro state.equality) (simp_all add: k i)
  have t: "scheduled_time sample_fromisoformat
             (sample_quiz ''s2'' ''next_day'' ''2026-01-31T09:00:00'') = Some jan31_0900"
    by (simp add: scheduled_time_def sample_quiz_def sample_fromisoformat_def)
  have g: "get_due_quizzes sample_fromisoformat jan31_0900 st'
             = Inr [sample_quiz ''s2'' ''next_day'' ''2026-01-31T09:00:00'']"
    unfolding e
    by (simp add: get_due_quizzes_def getitem_def sample_quiz_def sample_fromisoformat_def
        dt_le_refl)
  from h1 h3 m g show ?thesis unfolding e by simp
qed

section \<open>Topic scores\<close>

lemma merge_question_track:
  "merge_question quest sc = fold (track (question_correct quest)) (question_keys quest) sc"
  unfolding merge_question_def question_keys_def question_correct_def question_type_def
    question_tags_def track_def [abs_def] Let_def
  by simp

lemma calc_question_track:
  "calc_question quest sc = fold (track (question_correct quest)) (question_keys quest) sc"
  unfolding calc_question_def question_keys_def question_correct_def question_type_def
    question_tags_def track_def [abs_def] Let_def
  by simp

lemma map_of_track:
  "map_of (track c key sc) k =
     (if k = key
      then Some \<lparr>correct_count = correct_count (bucket_of sc key) + (if c then 1 else 0),
                total_count = total_count (bucket_of sc key) + 1\<rparr>
      else map_of sc k)"
  by (simp add: track_def Let_def map_of_map_entry update_conv' bucket_of_def
      split: option.splits)

lemma bucket_of_track:
  "bucket_of (track c key sc) k =
     (if k = key
      then \<lparr>correct_count = correct_count (bucket_of sc k) + (if c then 1 else 0),
            total_count = total_count (bucket_of sc k) + 1\<rparr>
      else bucket_of sc k)"
  by (simp add: bucket_of_def [of "track c key sc"] map_of_track) (simp add: bucket_of_def)

lemma present_track:
  "(map_of (track c key sc) k = None) = (map_of sc k = None \<and> k \<noteq> key)"
  by (simp add: map_of_track)

lemma bucket_of_fold_track:
  "bucket_of (fold (track c) keys sc) k =
     \<lparr>correct_count = correct_count (bucket_of sc k) + (if c then int (count_list keys k) else 0),
      total_count = total_count (bucket_of sc k) + int (count_list keys k)\<rparr>"
  by (induction keys arbitrary: sc) (simp_all add: bucket_of_track)

lemma present_fold_track:
  "(map_of (fold (track c) keys sc) k = None) = (map_of sc k = None \<and> count_list keys k = 0)"
  by (induction keys arbitrary: sc) (auto simp add: present_track)

lemma bucket_of_fold_merge:
  "bucket_of (fold merge_question qs sc) k =
     \<lparr>correct_count = correct_count (bucket_of sc k) + key_correct k qs,
      total_count = total_count (bucket_of sc k) + key_total k qs\<rparr>"
  by (induction qs arbitrary: sc)
     (simp_all add: merge_question_track bucket_of_fold_track key_correct_def key_total_def)

lemma present_fold_merge:
  "(map_of (fold merge_question qs sc) k = None) = (map_of sc k = None \<and> key_total k qs = 0)"
proof (induction qs arbitrary: sc)
  case Nil
  then show ?case by (simp add: key_total_def)
next
  case (Cons a qs)
  have nn: "0 \<le> key_total k qs" unfolding key_total_def by (induction qs) simp_all
  have "key_total k (a # qs) = int (count_list (question_keys a) k) + key_total k qs"
    by (simp add: key_total_def)
  with nn have "(key_total k (a # qs) = 0) = (count_list (question_keys a) k = 0 \<and> key_total k qs = 0)"
    by auto
  moreover have "(map_of (fold merge_question (a # qs) sc) k = None) =
      (map_of (merge_question a sc) k = None \<and> key_total k qs = 0)"
    by (simp add: Cons.IH)
  moreover have "(map_of (merge_question a sc) k = None) =
      (map_of sc k = None \<and> count_list (question_keys a) k = 0)"
    by (simp add: merge_question_track present_fold_track)
  ultimately show ?case by blast
qed

lemma key_correct_bounds: "0 \<le> key_correct k qs" "key_correct k qs \<le> key_total k qs"
  unfolding key_correct_def key_total_def
  by (induction qs) (auto simp add: sum_list_nonneg)

lemma merge_eq_calc: "merge_question = calc_question"
  by (intro ext) (simp add: merge_question_track calc_question_track)

lemma topic_scores_merge:
  "topic_scores (merge_result_into_state st res) =
     Some (fold calc_question (questions_of res) (scores_of st))"
  by (simp add: merge_result_into_state_def scores_of_def questions_of_def merge_eq_calc)

lemma scores_of_merge:
  "scores_of (merge_result_into_state st res) =
     fold calc_question (questions_of res) (scores_of st)"
  by (simp add: scores_of_def [of "merge_result_into_state st res"] topic_scores_merge)

lemma scores_of_fold_merge:
  "scores_of (fold (\<lambda>res s. merge_result_into_state s res) results st) =
     fold (\<lambda>res sc. fold calc_question (questions_of res) sc) results (scores_of st)"
proof (induction results arbitrary: st)
  case Nil
  show ?case by simp
next
  case (Cons r results)
  have "fold (\<lambda>res s. merge_result_into_state s res) (r # results) st =
          fold (\<lambda>res s. merge_result_into_state s res) results (merge_result_into_state st r)"
    by simp
  then show ?case by (simp only: Cons.IH scores_of_merge fold_simps)
qed

lemma topic_scores_fold_merge:
  assumes "results \<noteq> [] \<or> topic_scores st \<noteq> None"
  shows "topic_scores (fold (\<lambda>res s. merge_result_into_state s res) results st) =
           Some (fold (\<lambda>res sc. fold calc_question (questions_of res) sc) results (scores_of st))"
proof -
  have "topic_scores (fold (\<lambda>res s. merge_result_into_state s res) results st) \<noteq> None"
    using assms
  proof (induction results arbitrary: st)
    case Nil
    then show ?case by simp
  next
    case (Cons r results)
    have "topic_scores (merge_result_into_state st r) \<noteq> None"
      by (simp add: topic_scores_merge)
    from Cons.IH [of "merge_result_into_state st r"] this show ?case
      by (simp only: fold_simps) blast
  qed
  then obtain ts where
    ts: "topic_scores (fold (\<lambda>res s. merge_result_into_state s res) results st) = Some ts"
    by blast
  then have "scores_of (fold (\<lambda>res s. merge_result_into_state s res) results st) = ts"
    by (simp add: scores_of_def)
  with ts show ?thesis by (simp only: scores_of_fold_merge)
qed

lemma calculate_topic_scores_fold:
  "calculate_topic_scores results =
     fold (\<lambda>res sc. fold calc_question (questions_of res) sc) results []"
  by (simp add: calculate_topic_scores_def questions_of_def [abs_def])


text \<open>
  C4. \<^verbatim>\<open>merge_result_into_state\<close> adds to the bucket of every key one to \<^verbatim>\<open>total\<close> for each
  question of the result that has the key as its type and for each occurrence of the key
  in a tag list, and as much to \<^verbatim>\<open>correct\<close> where the question was answered correctly;
  a bucket that was missing starts from zero, and a key is absent afterwards only if it
  was absent before and no question counts for it. Merging a correct and then an
  incorrect answer of type \<^verbatim>\<open>A\<close> into the empty state gives \<^verbatim>\<open>A\<close> the bucket 1 of 2.
\<close>

theorem C4_merge_counts_per_key:
  "bucket_of (scores_of (merge_result_into_state st res)) k =
     \<lparr>correct_count = correct_count (bucket_of (scores_of st) k)
                       + key_correct k (questions_of res),
      total_count = total_count (bucket_of (scores_of st) k)
                     + key_total k (questions_of res)\<rparr>
   \<and> ((map_of (scores_of (merge_result_into_state st res)) k = None)
        = (map_of (scores_of st) k = None \<and> key_total k (questions_of res) = 0))
   \<and> topic_scores (merge_result_into_state st res)
        = Some (scores_of (merge_result_into_state st res))
   \<and> topic_scores
        (merge_result_into_state
           (merge_result_into_state empty_state (one_question ''A'' True []))
           (one_question ''A'' False []))
        = Some [(''A'', \<lparr>correct_count = 1, total_count = 2\<rparr>)]"
proof -
  have s: "scores_of (merge_result_into_state st res) =
             fold merge_question (questions_of res) (scores_of st)"
    by (simp add: scores_of_merge merge_eq_calc)
  have t: "topic_scores (merge_result_into_state st res)
             = Some (scores_of (merge_result_into_state st res))"
    by (simp add: scores_of_merge topic_scores_merge)
  have x: "topic_scores
        (merge_result_into_state
           (merge_result_into_state empty_state (one_question ''A'' True []))
           (one_question ''A'' False []))
        = Some [(''A'', \<lparr>correct_count = 1, total_count = 2\<rparr>)]"
    by (simp add: merge_result_into_state_def merge_question_def empty_state_def
        one_question_def)
  show ?thesis
    unfolding s using t x
    by (simp only: bucket_of_fold_merge present_fold_merge s simp_thms)
qed

text \<open>
  C7. Folding \<^verbatim>\<open>merge_result_into_state\<close> over a list of result documents, from a state
  whose \<^verbatim>\<open>topic_scores\<close> is the empty dict, leaves exactly the table
  \<^verbatim>\<open>calculate_topic_scores\<close> computes from the same list (same buckets, same key order);
  so it does from a state without the key \<^verbatim>\<open>topic_scores\<close>, once there is a result to
  merge.
\<close>

theorem C7_calculate_equals_folded_merge:
  "topic_scores (fold (\<lambda>res s. merge_result_into_state s res) results
                  (st\<lparr>topic_scores := Some []\<rparr>))
     = Some (calculate_topic_scores results)
   \<and> (results \<noteq> []
        \<longrightarrow> topic_scores (fold (\<lambda>res s. merge_result_into_state s res) results
                            (st\<lparr>topic_scores := None\<rparr>))
            = Some (calculate_topic_scores results))"
  by (simp add: topic_scores_fold_merge calculate_topic_scores_fold scores_of_def)

text \<open>
  Two result documents, the first with a tagged question and a question without any key,
  the second without questions.
\<close>

theorem C7_calculate_equals_folded_merge_witness:
  "[\<lparr>questions = Some [\<lparr>q_type = Some ''debugging'', q_correct = Some True,
                        q_tags = Some [''docker'', ''logs'']\<rparr>,
                       \<lparr>q_type = None, q_correct = None, q_tags = None\<rparr>]\<rparr>,
    \<lparr>questions = None\<rparr>] \<noteq> []
   \<and> topic_scores
        (fold (\<lambda>res s. merge_result_into_state s res)
           [\<lparr>questions = Some [\<lparr>q_type = Some ''debugging'', q_correct = Some True,
                               q_tags = Some [''docker'', ''logs'']\<rparr>,
                              \<lparr>q_type = None, q_correct = None, q_tags = None\<rparr>]\<rparr>,
            \<lparr>questions = None\<rparr>]
           ((empty_state :: (string, unit) state)\<lparr>topic_scores := None\<rparr>))
      = Some (calculate_topic_scores
           [\<lparr>questions = Some [\<lparr>q_type = Some ''debugging'', q_correct = Some True,
                               q_tags = Some [''docker'', ''logs'']\<rparr>,
                              \<lparr>q_type = None, q_correct = None, q_tags = None\<rparr>]\<rparr>,
            \<lparr>questions = None\<rparr>])
   \<and> calculate_topic_scores
        [\<lparr>questions = Some [\<lparr>q_type = Some ''debugging'', q_correct = Some True,
                            q_tags = Some [''docker'', ''logs'']\<rparr>,
                           \<lparr>q_type = None, q_correct = None, q_tags = None\<rparr>]\<rparr>,
         \<lparr>questions = None\<rparr>]
      = [(''debugging'', \<lparr>correct_count = 1, total_count = 1\<rparr>),
         (''docker'', \<lparr>correct_count = 1, total_count = 1\<rparr>),
         (''logs'', \<lparr>correct_count = 1, total_count = 1\<rparr>),
         (''unknown'', \<lparr>correct_count = 0, total_count = 1\<rparr>)]"
proof -
  let ?rs = "[\<lparr>questions = Some [\<lparr>q_type = Some ''debugging'', q_correct = Some True,
                                  q_tags = Some [''docker'', ''logs'']\<rparr>,
                                 \<lparr>q_type = None, q_correct = None, q_tags = None\<rparr>]\<rparr>,
              \<lparr>questions = None\<rparr>]"
  have c: "calculate_topic_scores ?rs
      = [(''debugging'', \<lparr>correct_count = 1, total_count = 1\<rparr>),
         (''docker'', \<lparr>correct_count = 1, total_count = 1\<rparr>),
         (''logs'', \<lparr>correct_count = 1, total_count = 1\<rparr>),
         (''unknown'', \<lparr>correct_count = 0, total_count = 1\<rparr>)]"
    by (simp add: calculate_topic_scores_def calc_question_def)
  have n: "?rs \<noteq> []" by simp
  from C7_calculate_equals_folded_merge [of ?rs "empty_state :: (string, unit) state"] n
  have "topic_scores (fold (\<lambda>res s. merge_result_into_state s res) ?rs
           ((empty_state :: (string, unit) state)\<lparr>topic_scores := None\<rparr>))
      = Some (calculate_topic_scores ?rs)"
    by blast
  with c n show ?thesis by (simp only: simp_thms)
qed

text \<open>
  C9, as the code has it. For every state, result and key, the bucket of the key after
  \<^verbatim>\<open>merge_result_into_state\<close> has \<^verbatim>\<open>correct\<close> and \<^verbatim>\<open>total\<close> at least as large as before,
  and a bucket that is there stays there. A bucket satisfies \<open>0 \<le> correct \<le> total\<close>
  afterwards if it did before, or if the merge created it; a bucket that came into the
  merge violating the bound is incremented all the same, and nothing repairs it.
\<close>

theorem C9_merge_monotone:
  "(\<forall>b. map_of (scores_of st) k = Some b
       \<longrightarrow> (\<exists>b'. map_of (scores_of (merge_result_into_state st res)) k = Some b'
                 \<and> correct_count b \<le> correct_count b'
                 \<and> total_count b \<le> total_count b'
                 \<and> (bucket_ok b \<longrightarrow> bucket_ok b')))
   \<and> (\<forall>b'. map_of (scores_of st) k = None
           \<and> map_of (scores_of (merge_result_into_state st res)) k = Some b'
        \<longrightarrow> bucket_ok b')"
proof -
  let ?sc = "scores_of st" and ?sc' = "scores_of (merge_result_into_state st res)"
  let ?qs = "questions_of res"
  have s: "?sc' = fold merge_question ?qs ?sc"
    by (simp add: scores_of_merge merge_eq_calc)
  have b: "bucket_of ?sc' k =
     \<lparr>correct_count = correct_count (bucket_of ?sc k) + key_correct k ?qs,
      total_count = total_count (bucket_of ?sc k) + key_total k ?qs\<rparr>"
    unfolding s by (rule bucket_of_fold_merge)
  have p: "(map_of ?sc' k = None) = (map_of ?sc k = None \<and> key_total k ?qs = 0)"
    unfolding s by (rule present_fold_merge)
  note kb = key_correct_bounds [of k ?qs]
  have one: "\<exists>b'. map_of ?sc' k = Some b'
                 \<and> correct_count b \<le> correct_count b'
                 \<and> total_count b \<le> total_count b'
                 \<and> (bucket_ok b \<longrightarrow> bucket_ok b')"
    if m: "map_of ?sc k = Some b" for b
  proof -
    from p m obtain b' where m': "map_of ?sc' k = Some b'" by auto
    from b m m' have "b' = \<lparr>correct_count = correct_count b + key_correct k ?qs,
                           total_count = total_count b + key_total k ?qs\<rparr>"
      by (simp add: bucket_of_def)
    with kb m' show ?thesis by (auto simp add: bucket_ok_def)
  qed
  have two: "bucket_ok b'"
    if m: "map_of ?sc k = None" and m': "map_of ?sc' k = Some b'" for b'
  proof -
    from b m m' have "b' = \<lparr>correct_count = key_correct k ?qs,
                           total_count = key_total k ?qs\<rparr>"
      by (simp add: bucket_of_def)
    with kb show ?thesis by (simp add: bucket_ok_def)
  qed
  from one two show ?thesis by blast
qed

text \<open>
  A state with the bucket 3 of 5 for \<^verbatim>\<open>debugging\<close> and none for \<^verbatim>\<open>docker\<close>, and a correct
  answer of type \<^verbatim>\<open>debugging\<close> tagged \<^verbatim>\<open>docker\<close>.
\<close>

theorem C9_merge_monotone_witness:
  "map_of (scores_of ((empty_state :: (string, unit) state)
             \<lparr>topic_scores := Some [(''debugging'', \<lparr>correct_count = 3, total_count = 5\<rparr>)]\<rparr>))
     ''debugging'' = Some \<lparr>correct_count = 3, total_count = 5\<rparr>
   \<and> bucket_ok \<lparr>correct_count = 3, total_count = 5\<rparr>
   \<and> map_of (scores_of (merge_result_into_state
        ((empty_state :: (string, unit) state)
           \<lparr>topic_scores := Some [(''debugging'', \<lparr>correct_count = 3, total_count = 5\<rparr>)]\<rparr>)
        (one_question ''debugging'' True [''docker''])))
     ''debugging'' = Some \<lparr>correct_count = 4, total_count = 6\<rparr>
   \<and> bucket_ok \<lparr>correct_count = 4, total_count = 6\<rparr>"
proof -
  let ?st = "(empty_state :: (string, unit) state)
               \<lparr>topic_scores := Some [(''debugging'', \<lparr>correct_count = 3, total_count = 5\<rparr>)]\<rparr>"
  let ?res = "one_question ''debugging'' True [''docker'']"
  have h: "map_of (scores_of ?st) ''debugging'' = Some \<lparr>correct_count = 3, total_count = 5\<rparr>"
    by (simp add: scores_of_def)
  have a: "map_of (scores_of (merge_result_into_state ?st ?res)) ''debugging''
             = Some \<lparr>correct_count = 4, total_count = 6\<rparr>"
    by (simp add: scores_of_def merge_result_into_state_def merge_question_def
        one_question_def)
  have ok: "bucket_ok \<lparr>correct_count = 3, total_count = 5\<rparr>" by (simp add: bucket_ok_def)
  from C9_merge_monotone [of ?st "''debugging''" ?res] h ok a
  have "bucket_ok \<lparr>correct_count = 4, total_count = 6\<rparr>" by auto
  with h ok a show ?thesis by (simp only: simp_thms)
qed

text \<open>
  C9 as the specification words it, with the bound \<open>0 \<le> correct \<le> total\<close> on every
  bucket written from every state, fails: a state can hold the bucket 5 of 1, and an
  incorrect answer of that type makes it 5 of 2.
\<close>

theorem C9_written_bucket_counterexample:
  "map_of (scores_of (merge_result_into_state
        ((empty_state :: (string, unit) state)
           \<lparr>topic_scores := Some [(''A'', \<lparr>correct_count = 5, total_count = 1\<rparr>)]\<rparr>)
        (one_question ''A'' False [])))
     ''A'' = Some \<lparr>correct_count = 5, total_count = 2\<rparr>
   \<and> \<not> bucket_ok \<lparr>correct_count = 5, total_count = 2\<rparr>"
  by (simp add: scores_of_def merge_result_into_state_def merge_question_def
      one_question_def bucket_ok_def)

end
